theory Spec2Isabelle
  imports Complex_Main
begin

section \<open>JavaScript numbers\<close>

text \<open>
  The engine is written in JavaScript, where every number is an IEEE double. The model
  keeps the three non-finite values apart from the finite ones, because the source
  produces them from finite data (\<open>0 / 0\<close> in the temperature calculation,
  \<open>Number.POSITIVE_INFINITY\<close> in the wall force) and because every comparison with
  \<open>NaN\<close> is false. Finite values are exact reals: rounding, overflow to an infinity
  and the sign of zero are not modelled (a zero divisor counts as \<open>+0\<close>).
\<close>

datatype jsnum = Fin real | PInf | NInf | NaN

abbreviation num :: "int \<Rightarrow> jsnum" where
  "num i \<equiv> Fin (of_int i)"

fun jneg :: "jsnum \<Rightarrow> jsnum" where
  "jneg (Fin a) = Fin (- a)"
| "jneg PInf = NInf"
| "jneg NInf = PInf"
| "jneg NaN = NaN"

fun jadd :: "jsnum \<Rightarrow> jsnum \<Rightarrow> jsnum" where
  "jadd NaN b = NaN"
| "jadd a NaN = NaN"
| "jadd (Fin a) (Fin b) = Fin (a + b)"
| "jadd PInf NInf = NaN"
| "jadd NInf PInf = NaN"
| "jadd PInf b = PInf"
| "jadd a PInf = PInf"
| "jadd NInf b = NInf"
| "jadd a NInf = NInf"

definition jsub :: "jsnum \<Rightarrow> jsnum \<Rightarrow> jsnum" where
  "jsub a b = jadd a (jneg b)"

fun jmul :: "jsnum \<Rightarrow> jsnum \<Rightarrow> jsnum" where
  "jmul NaN b = NaN"
| "jmul a NaN = NaN"
| "jmul (Fin a) (Fin b) = Fin (a * b)"
| "jmul (Fin a) PInf = (if a = 0 then NaN else if 0 < a then PInf else NInf)"
| "jmul (Fin a) NInf = (if a = 0 then NaN else if 0 < a then NInf else PInf)"
| "jmul PInf (Fin b) = (if b = 0 then NaN else if 0 < b then PInf else NInf)"
| "jmul NInf (Fin b) = (if b = 0 then NaN else if 0 < b then NInf else PInf)"
| "jmul PInf PInf = PInf"
| "jmul PInf NInf = NInf"
| "jmul NInf PInf = NInf"
| "jmul NInf NInf = PInf"

fun jdiv :: "jsnum \<Rightarrow> jsnum \<Rightarrow> jsnum" where
  "jdiv NaN b = NaN"
| "jdiv a NaN = NaN"
| "jdiv (Fin a) (Fin b) =
     (if b = 0 then (if a = 0 then NaN else if 0 < a then PInf else NInf)
      else Fin (a / b))"
| "jdiv (Fin a) PInf = Fin 0"
| "jdiv (Fin a) NInf = Fin 0"
| "jdiv PInf (Fin b) = (if 0 \<le> b then PInf else NInf)"
| "jdiv NInf (Fin b) = (if 0 \<le> b then NInf else PInf)"
| "jdiv PInf PInf = NaN"
| "jdiv PInf NInf = NaN"
| "jdiv NInf PInf = NaN"
| "jdiv NInf NInf = NaN"

text \<open>\<open>a < b\<close>; \<open>a > b\<close> is \<open>jlt b a\<close>.\<close>

fun jlt :: "jsnum \<Rightarrow> jsnum \<Rightarrow> bool" where
  "jlt NaN b = False"
| "jlt a NaN = False"
| "jlt (Fin a) (Fin b) = (a < b)"
| "jlt (Fin a) PInf = True"
| "jlt (Fin a) NInf = False"
| "jlt PInf b = False"
| "jlt NInf NInf = False"
| "jlt NInf b = True"

definition jgt :: "jsnum \<Rightarrow> jsnum \<Rightarrow> bool" where
  "jgt a b = jlt b a"

text \<open>\<open>a <= b\<close> is \<open>!(b < a)\<close> unless an operand is \<open>NaN\<close>; \<open>a >= b\<close> is \<open>jle b a\<close>.\<close>

definition jle :: "jsnum \<Rightarrow> jsnum \<Rightarrow> bool" where
  "jle a b = (a \<noteq> NaN \<and> b \<noteq> NaN \<and> \<not> jlt b a)"


text \<open>\<open>a === b\<close> on numbers: \<open>NaN\<close> equals nothing, itself included.\<close>

definition jseq :: "jsnum \<Rightarrow> jsnum \<Rightarrow> bool" where
  "jseq a b = (a \<noteq> NaN \<and> a = b)"

text \<open>\<open>Math.pow(a, n)\<close> for the literal whole exponents the source uses.\<close>

definition jpow :: "jsnum \<Rightarrow> nat \<Rightarrow> jsnum" where
  "jpow a n =
     (if n = 0 then Fin 1
      else case a of
             Fin r \<Rightarrow> Fin (r ^ n)
           | PInf \<Rightarrow> PInf
           | NInf \<Rightarrow> (if odd n then NInf else PInf)
           | NaN \<Rightarrow> NaN)"


text \<open>\<open>undefined\<close> in arithmetic is \<open>NaN\<close>.\<close>

definition toNumber :: "jsnum option \<Rightarrow> jsnum" where
  "toNumber v = (case v of None \<Rightarrow> NaN | Some a \<Rightarrow> a)"

definition isNaN :: "jsnum \<Rightarrow> bool" where
  "isNaN a = (a = NaN)"

section \<open>Errors and completions\<close>

datatype js_error = TypeError | ReferenceError | AssertionError | Error string

text \<open>
  A method that mutates its receiver either returns a value or throws; in both cases
  the receiver is left in some state, which the completion carries.
\<close>

datatype ('a, 's) completion = Return 'a 's | Throw js_error 's

fun state_of :: "('a, 's) completion \<Rightarrow> 's" where
  "state_of (Return v s) = s"
| "state_of (Throw e s) = s"

section \<open>Vectors (DOT/Vector2)\<close>

datatype Vector2 = Vector2 (vec_x: jsnum) (vec_y: jsnum)

fun setX :: "jsnum \<Rightarrow> Vector2 \<Rightarrow> Vector2" where
  "setX a (Vector2 px py) = Vector2 a py"

fun setY :: "jsnum \<Rightarrow> Vector2 \<Rightarrow> Vector2" where
  "setY a (Vector2 px py) = Vector2 px a"


section \<open>MoleculeForceAndMotionDataSet\<close>

text \<open>
  The counters are whole numbers. A JavaScript array is an object keyed by number: a
  read of a slot never written gives \<open>undefined\<close> (\<open>None\<close>), a write to any key
  succeeds. The arrays are therefore maps from \<open>jsnum\<close>, the key
  \<open>numberOfAtoms / atomsPerMolecule\<close> being the quotient the source computes.
\<close>

record MoleculeForceAndMotionDataSet =
  numberOfAtoms :: int
  numberOfSafeMolecules :: int
  atomsPerMolecule :: int
  atomPositions :: "jsnum \<rightharpoonup> Vector2"
  moleculeCenterOfMassPositions :: "jsnum \<rightharpoonup> Vector2"
  moleculeVelocities :: "jsnum \<rightharpoonup> Vector2"
  moleculeForces :: "jsnum \<rightharpoonup> Vector2"
  nextMoleculeForces :: "jsnum \<rightharpoonup> Vector2"
  moleculeRotationAngles :: "jsnum \<rightharpoonup> jsnum"
  moleculeRotationRates :: "jsnum \<rightharpoonup> jsnum"
  moleculeTorques :: "jsnum \<rightharpoonup> jsnum"
  nextMoleculeTorques :: "jsnum \<rightharpoonup> jsnum"
  moleculeMass :: "jsnum option"
  moleculeRotationalInertia :: "jsnum option"

text \<open>
  The constructor. \<open>StatesOfMatterConstants.DIATOMIC_PARTICLE_DISTANCE\<close> and the
  rotational inertia of the water molecule structure are not among the sources and are
  parameters.
\<close>

definition newMoleculeForceAndMotionDataSet ::
  "jsnum \<Rightarrow> jsnum \<Rightarrow> int \<Rightarrow> MoleculeForceAndMotionDataSet" where
  "newMoleculeForceAndMotionDataSet DIATOMIC_PARTICLE_DISTANCE waterRotationalInertia apm =
     \<lparr> numberOfAtoms = 0,
       numberOfSafeMolecules = 0,
       atomsPerMolecule = apm,
       atomPositions = Map.empty,
       moleculeCenterOfMassPositions = Map.empty,
       moleculeVelocities = Map.empty,
       moleculeForces = Map.empty,
       nextMoleculeForces = Map.empty,
       moleculeRotationAngles = Map.empty,
       moleculeRotationRates = Map.empty,
       moleculeTorques = Map.empty,
       nextMoleculeTorques = Map.empty,
       moleculeMass =
         (if apm = 1 then Some (Fin 1)
          else if apm = 2 then Some (Fin 2)
          else if apm = 3 then Some (Fin 1.5)
          else None),
       moleculeRotationalInertia =
         (if apm = 1 then None
          else if apm = 2 then Some (jdiv (jpow DIATOMIC_PARTICLE_DISTANCE 2) (Fin 2))
          else if apm = 3 then Some waterRotationalInertia
          else None) \<rparr>"

definition getNumberOfMolecules :: "MoleculeForceAndMotionDataSet \<Rightarrow> jsnum" where
  "getNumberOfMolecules ds = jdiv (num (numberOfAtoms ds)) (num (atomsPerMolecule ds))"

text \<open>\<open>StatesOfMatterConstants.MAX_NUM_ATOMS\<close> is not among the sources: a parameter.\<close>

definition getNumberOfRemainingSlots :: "int \<Rightarrow> MoleculeForceAndMotionDataSet \<Rightarrow> jsnum" where
  "getNumberOfRemainingSlots MAX_NUM_ATOMS ds =
     jsub (jdiv (num MAX_NUM_ATOMS) (num (atomsPerMolecule ds)))
          (jdiv (num (numberOfAtoms ds)) (num (atomsPerMolecule ds)))"

subsection \<open>calculateTemperatureFromKineticEnergy\<close>

text \<open>
  The monatomic loop runs to the whole number \<open>numberOfAtoms\<close>. Reading \<open>.x\<close> of a
  velocity slot that was never written throws a TypeError.
\<close>

function monatomicKineticEnergy ::
  "MoleculeForceAndMotionDataSet \<Rightarrow> int \<Rightarrow> jsnum \<Rightarrow> js_error + jsnum" where
  "monatomicKineticEnergy ds i translationalKineticEnergy =
     (if i < numberOfAtoms ds then
        (case moleculeVelocities ds (num i) of
           None \<Rightarrow> Inl TypeError
         | Some v \<Rightarrow>
             monatomicKineticEnergy ds (i + 1)
               (jadd translationalKineticEnergy
                  (jdiv (jadd (jmul (vec_x v) (vec_x v)) (jmul (vec_y v) (vec_y v))) (Fin 2))))
      else Inr translationalKineticEnergy)"
  by pat_completeness auto
termination
  by (relation "measure (\<lambda>(ds, i, e). nat (numberOfAtoms ds - i))") auto

declare monatomicKineticEnergy.simps [simp del]

text \<open>
  The polyatomic loop runs while \<open>i < numberOfAtoms / atomsPerMolecule\<close>, a bound that
  is \<open>Infinity\<close> for a zero \<open>atomsPerMolecule\<close>: the loop is partial and \<open>None\<close>
  stands for not returning. The accumulator is the pair of the translational and the
  rotational energy.
\<close>

partial_function (option) polyatomicKineticEnergy ::
  "MoleculeForceAndMotionDataSet \<Rightarrow> int \<Rightarrow> jsnum \<times> jsnum \<Rightarrow> (js_error + jsnum \<times> jsnum) option"
  where
  "polyatomicKineticEnergy ds i acc =
     (if jlt (num i) (jdiv (num (numberOfAtoms ds)) (num (atomsPerMolecule ds))) then
        (case moleculeVelocities ds (num i) of
           None \<Rightarrow> Some (Inl TypeError)
         | Some v \<Rightarrow>
             polyatomicKineticEnergy ds (i + 1)
               (jadd (fst acc)
                  (jmul (jmul (Fin 0.5) (toNumber (moleculeMass ds)))
                        (jadd (jpow (vec_x v) 2) (jpow (vec_y v) 2))),
                jadd (snd acc)
                  (jmul (jmul (Fin 0.5) (toNumber (moleculeRotationalInertia ds)))
                        (jpow (toNumber (moleculeRotationRates ds (num i))) 2))))
      else Some (Inr acc))"

definition calculateTemperatureFromKineticEnergy ::
  "MoleculeForceAndMotionDataSet \<Rightarrow> (js_error + jsnum) option" where
  "calculateTemperatureFromKineticEnergy ds =
     (let numberOfMolecules = jdiv (num (numberOfAtoms ds)) (num (atomsPerMolecule ds)) in
      if atomsPerMolecule ds = 1 then
        (case monatomicKineticEnergy ds 0 (Fin 0) of
           Inl e \<Rightarrow> Some (Inl e)
         | Inr translationalKineticEnergy \<Rightarrow>
             Some (Inr (jdiv translationalKineticEnergy (num (numberOfAtoms ds)))))
      else
        (case polyatomicKineticEnergy ds 0 (Fin 0, Fin 0) of
           None \<Rightarrow> None
         | Some (Inl e) \<Rightarrow> Some (Inl e)
         | Some (Inr (translationalKineticEnergy, rotationalKineticEnergy)) \<Rightarrow>
             Some (Inr (jdiv (jdiv (jadd translationalKineticEnergy rotationalKineticEnergy)
                                   numberOfMolecules)
                             (Fin 1.5)))))"

subsection \<open>addMolecule\<close>

text \<open>
  The loop that copies the atoms of the new molecule. The argument \<open>atomPositions\<close> is
  the caller's array; \<open>atomPositions[i].copy()\<close> throws a TypeError where the array has
  no element \<open>i\<close>.
\<close>

function copyAtomPositions ::
  "Vector2 list \<Rightarrow> int \<Rightarrow> MoleculeForceAndMotionDataSet \<Rightarrow>
   (unit, MoleculeForceAndMotionDataSet) completion" where
  "copyAtomPositions newAtomPositions i ds =
     (if i < atomsPerMolecule ds then
        (if 0 \<le> i \<and> nat i < length newAtomPositions then
           copyAtomPositions newAtomPositions (i + 1)
             (ds\<lparr>atomPositions :=
                   (atomPositions ds)(num (i + numberOfAtoms ds) \<mapsto> newAtomPositions ! nat i)\<rparr>)
         else Throw TypeError ds)
      else Return () ds)"
  by pat_completeness auto
termination
  by (relation "measure (\<lambda>(a, i, ds). nat (atomsPerMolecule ds - i))") auto

declare copyAtomPositions.simps [simp del]

text \<open>
  \<open>assert && assert( ... )\<close> runs only where assertions are enabled: the flag
  \<open>assertions\<close> says whether they are.
\<close>

definition addMolecule ::
  "bool \<Rightarrow> int \<Rightarrow> Vector2 list \<Rightarrow> Vector2 \<Rightarrow> Vector2 \<Rightarrow> jsnum \<Rightarrow>
   MoleculeForceAndMotionDataSet \<Rightarrow> (bool, MoleculeForceAndMotionDataSet) completion" where
  "addMolecule assertions MAX_NUM_ATOMS newAtomPositions moleculeCenterOfMassPosition
       moleculeVelocity moleculeRotationRate ds =
     (if jseq (getNumberOfRemainingSlots MAX_NUM_ATOMS ds) (Fin 0) then Return False ds
      else
        (case copyAtomPositions newAtomPositions 0 ds of
           Throw e ds1 \<Rightarrow> Throw e ds1
         | Return u ds1 \<Rightarrow>
             (let numberOfMolecules =
                    jdiv (num (numberOfAtoms ds1)) (num (atomsPerMolecule ds1));
                  ds2 = ds1
                    \<lparr>moleculeCenterOfMassPositions :=
                       (moleculeCenterOfMassPositions ds1)
                         (numberOfMolecules \<mapsto> moleculeCenterOfMassPosition),
                     moleculeVelocities :=
                       (moleculeVelocities ds1)(numberOfMolecules \<mapsto> moleculeVelocity),
                     moleculeRotationRates :=
                       (moleculeRotationRates ds1)(numberOfMolecules \<mapsto> moleculeRotationRate),
                     moleculeForces :=
                       (moleculeForces ds1)(numberOfMolecules \<mapsto> Vector2 (Fin 0) (Fin 0)),
                     nextMoleculeForces :=
                       (nextMoleculeForces ds1)(numberOfMolecules \<mapsto> Vector2 (Fin 0) (Fin 0)),
                     numberOfAtoms := numberOfAtoms ds1 + atomsPerMolecule ds1\<rparr>
              in if assertions \<and> isNaN (vec_x moleculeCenterOfMassPosition)
                 then Throw AssertionError ds2
                 else Return True ds2)))"

subsection \<open>removeMolecule\<close>

text \<open>One pass of the loop over the arrays kept per molecule: slot \<open>i\<close> takes slot \<open>i + 1\<close>.\<close>

definition shiftMoleculeData ::
  "int \<Rightarrow> MoleculeForceAndMotionDataSet \<Rightarrow> MoleculeForceAndMotionDataSet" where
  "shiftMoleculeData i ds = ds
     \<lparr>moleculeCenterOfMassPositions :=
        (moleculeCenterOfMassPositions ds)(num i := moleculeCenterOfMassPositions ds (num (i + 1))),
      moleculeVelocities :=
        (moleculeVelocities ds)(num i := moleculeVelocities ds (num (i + 1))),
      moleculeForces :=
        (moleculeForces ds)(num i := moleculeForces ds (num (i + 1))),
      nextMoleculeForces :=
        (nextMoleculeForces ds)(num i := nextMoleculeForces ds (num (i + 1))),
      moleculeRotationAngles :=
        (moleculeRotationAngles ds)(num i := moleculeRotationAngles ds (num (i + 1))),
      moleculeRotationRates :=
        (moleculeRotationRates ds)(num i := moleculeRotationRates ds (num (i + 1))),
      moleculeTorques :=
        (moleculeTorques ds)(num i := moleculeTorques ds (num (i + 1))),
      nextMoleculeTorques :=
        (nextMoleculeTorques ds)(num i := nextMoleculeTorques ds (num (i + 1)))\<rparr>"




section \<open>MultipleParticleModel: the state\<close>

text \<open>
  The thermostat classes are not among the sources; the model sets their
  \<open>targetTemperature\<close> and calls their \<open>adjustTemperature\<close>.
\<close>

record Thermostat =
  targetTemperature :: jsnum

text \<open>The fields of the Verlet calculator; its \<open>model\<close> is passed beside it.\<close>

record AbstractVerletAlgorithm =
  potentialEnergy :: jsnum
  pressure :: jsnum
  temperature :: jsnum

text \<open>
  The fields of the model that the methods below read or write. A strategy object or
  the data set may be \<open>null\<close> (\<open>None\<close>). \<open>normalizedContainerHeight\<close> is the derived
  property the model declares.
\<close>

record MultipleParticleModel =
  isoKineticThermostat :: "Thermostat option"
  andersenThermostat :: "Thermostat option"
  moleculeForceAndMotionCalculator :: "AbstractVerletAlgorithm option"
  moleculeDataSet :: "MoleculeForceAndMotionDataSet option"
  isExploded :: bool
  normalizedContainerWidth :: jsnum
  normalizedContainerHeight :: jsnum
  gravitationalAcceleration :: jsnum
  heatingCoolingAmount :: jsnum
  temperatureSetPoint :: jsnum
  thermostatType :: int
  heightChangeCounter :: int

text \<open>
  Modelled from the spec: \<open>explodeContainer\<close>, which the calculator calls on the model
  and which is not among the sources. The spec has the container transition to the
  exploded state, the state the flag \<open>isExploded\<close> stands for.
\<close>

definition explodeContainer :: "MultipleParticleModel \<Rightarrow> MultipleParticleModel" where
  "explodeContainer m = m\<lparr>isExploded := True\<rparr>"

text \<open>
  Modelled from the spec: \<open>getNormalizedContainerHeight\<close>, which \<open>updatePressure\<close> calls
  on the model and which is not among the sources (the model declares the derived
  property, no getter). The spec has the perimeter of the pressure use the normalized
  container width plus height: the getter returns the normalized height.
\<close>

definition getNormalizedContainerHeight :: "MultipleParticleModel \<Rightarrow> jsnum" where
  "getNormalizedContainerHeight m = normalizedContainerHeight m"


text \<open>
  Modelled from the spec: \<open>numberOfMolecules\<close>, a member of the data set that
  \<open>updateMoleculeSafety\<close> reads and that the data set among the sources does not have.
  The spec has the per-molecule sequences of length \<open>numberOfAtoms / atomsPerMolecule\<close>
  and states \<open>numberOfAtoms = atomsPerMolecule * numberOfMolecules\<close>: the member is that
  quotient.
\<close>

definition numberOfMolecules :: "MoleculeForceAndMotionDataSet \<Rightarrow> jsnum" where
  "numberOfMolecules ds = jdiv (num (numberOfAtoms ds)) (num (atomsPerMolecule ds))"

text \<open>
  Modelled from the spec: \<open>getAtomsPerMolecule\<close>, which \<open>updateMoleculeSafety\<close> calls on
  the data set and which the data set among the sources does not have. The spec has
  \<open>atomsPerMolecule\<close> fixed for the lifetime of the data set: the method returns it.
\<close>

definition getAtomsPerMolecule :: "MoleculeForceAndMotionDataSet \<Rightarrow> int" where
  "getAtomsPerMolecule ds = atomsPerMolecule ds"

section \<open>AbstractVerletAlgorithm\<close>

definition PRESSURE_CALC_WEIGHTING :: jsnum where
  "PRESSURE_CALC_WEIGHTING = Fin 0.999"

definition WALL_DISTANCE_THRESHOLD :: jsnum where
  "WALL_DISTANCE_THRESHOLD = Fin 1.122462048309373017"


definition EXPLOSION_PRESSURE :: jsnum where
  "EXPLOSION_PRESSURE = Fin 1.05"

subsection \<open>calculateWallForce\<close>

text \<open>The potential-energy term \<open>4 / d^12 - 4 / d^6 + 1\<close> that follows every force.\<close>

definition wallPotential :: "jsnum \<Rightarrow> jsnum" where
  "wallPotential d =
     jadd (jsub (jdiv (Fin 4) (jpow d 12)) (jdiv (Fin 4) (jpow d 6))) (Fin 1)"

text \<open>
  The block under \<open>if ( yPos < this.model.normalizedContainerWidth )\<close>: the force in
  the X direction. It returns the local \<open>xPos\<close>, which the Y block reads, the resultant
  force and the calculator.
\<close>

definition wallForceX ::
  "MultipleParticleModel \<Rightarrow> jsnum \<Rightarrow> jsnum \<Rightarrow> jsnum \<Rightarrow>
   Vector2 \<times> AbstractVerletAlgorithm \<Rightarrow> jsnum \<times> Vector2 \<times> AbstractVerletAlgorithm" where
  "wallForceX m xPos yPos containerWidth st =
     (let resultantForce = fst st; this = snd st;
          minDistance = jmul WALL_DISTANCE_THRESHOLD (Fin 0.8) in
      if jlt yPos (normalizedContainerWidth m) then
        (if jlt xPos WALL_DISTANCE_THRESHOLD then
           (let xPos1 =
                  (if jlt xPos minDistance then
                     (if jlt xPos (Fin 0) \<and> isExploded m then PInf else minDistance)
                   else xPos)
            in (xPos1,
                setX (jsub (jdiv (Fin 48) (jpow xPos1 13)) (jdiv (Fin 24) (jpow xPos1 7)))
                     resultantForce,
                this\<lparr>potentialEnergy := jadd (potentialEnergy this) (wallPotential xPos1)\<rparr>))
         else if jlt (jsub containerWidth xPos) WALL_DISTANCE_THRESHOLD then
           (let distance0 = jsub containerWidth xPos;
                xPos1 =
                  (if jlt distance0 minDistance \<and> jlt distance0 (Fin 0) \<and> isExploded m
                   then PInf else xPos);
                distance1 =
                  (if jlt distance0 minDistance then
                     (if jlt distance0 (Fin 0) \<and> isExploded m then distance0 else minDistance)
                   else distance0)
            in (xPos1,
                setX (jadd (jneg (jdiv (Fin 48) (jpow distance1 13)))
                           (jdiv (Fin 24) (jpow distance1 7)))
                     resultantForce,
                this\<lparr>potentialEnergy := jadd (potentialEnergy this) (wallPotential distance1)\<rparr>))
         else (xPos, resultantForce, this))
      else (xPos, resultantForce, this))"

text \<open>The force in the Y direction; \<open>xPos\<close> is the local the X block may have changed.\<close>

definition wallForceY ::
  "jsnum \<Rightarrow> jsnum \<Rightarrow> jsnum \<Rightarrow> jsnum \<Rightarrow>
   Vector2 \<times> AbstractVerletAlgorithm \<times> MultipleParticleModel \<Rightarrow>
   Vector2 \<times> AbstractVerletAlgorithm \<times> MultipleParticleModel" where
  "wallForceY xPos yPos containerWidth containerHeight st =
     (let resultantForce = fst st; this = fst (snd st); m = snd (snd st);
          minDistance = jmul WALL_DISTANCE_THRESHOLD (Fin 0.8) in
      if jlt yPos WALL_DISTANCE_THRESHOLD then
        (let m1 = (if jlt yPos minDistance \<and> jlt yPos (Fin 0) \<and> \<not> isExploded m
                   then explodeContainer m else m);
             yPos1 = (if jlt yPos minDistance then minDistance else yPos)
         in if \<not> isExploded m1 \<or> (jgt xPos (Fin 0) \<and> jlt xPos containerWidth) then
              (setY (jsub (jdiv (Fin 48) (jpow yPos1 13)) (jdiv (Fin 24) (jpow yPos1 7)))
                    resultantForce,
               this\<lparr>potentialEnergy := jadd (potentialEnergy this) (wallPotential yPos1)\<rparr>,
               m1)
            else (resultantForce, this, m1))
      else if jlt (jsub containerHeight yPos) WALL_DISTANCE_THRESHOLD \<and> \<not> isExploded m then
        (let distance0 = jsub containerHeight yPos;
             distance1 = (if jlt distance0 minDistance then minDistance else distance0)
         in (setY (jadd (jdiv (Fin (- 48)) (jpow distance1 13))
                        (jdiv (Fin 24) (jpow distance1 7)))
                  resultantForce,
             this\<lparr>potentialEnergy := jadd (potentialEnergy this) (wallPotential distance1)\<rparr>,
             m))
      else (resultantForce, this, m))"

text \<open>
  The method. \<open>position\<close> and \<open>resultantForce\<close> may be \<open>null\<close>; the state is the
  resultant force, the calculator and its model.
\<close>

definition calculateWallForce ::
  "bool \<Rightarrow> Vector2 option \<Rightarrow> jsnum \<Rightarrow> jsnum \<Rightarrow>
   Vector2 option \<times> AbstractVerletAlgorithm \<times> MultipleParticleModel \<Rightarrow>
   (unit, Vector2 option \<times> AbstractVerletAlgorithm \<times> MultipleParticleModel) completion" where
  "calculateWallForce assertions position containerWidth containerHeight st =
     (let resultantForce = fst st; this = fst (snd st); m = snd (snd st) in
      if assertions \<and> (resultantForce = None \<or> position = None) then Throw AssertionError st
      else
        (case (resultantForce, position) of
           (Some force, Some p) \<Rightarrow>
             (let xPos = vec_x p; yPos = vec_y p;
                  afterX = wallForceX m xPos yPos containerWidth (force, this);
                  afterY = wallForceY (fst afterX) yPos containerWidth containerHeight
                             (fst (snd afterX), snd (snd afterX), m)
              in Return () (Some (fst afterY), snd afterY))
         | _ \<Rightarrow> Return () st))"

subsection \<open>updateMoleculeSafety\<close>



definition swapSlots :: "('k \<rightharpoonup> 'a) \<Rightarrow> 'k \<Rightarrow> 'k \<Rightarrow> ('k \<rightharpoonup> 'a)" where
  "swapSlots a p q = (let temp = a p in (a(p := a q))(q := temp))"

text \<open>
  The body of \<open>if ( !moleculeIsUnsafe )\<close>: swap molecule \<open>i\<close> with the first unsafe one
  unless it is the first unsafe one, then count it as safe.
\<close>

definition promoteMolecule ::
  "int \<Rightarrow> MoleculeForceAndMotionDataSet \<Rightarrow> MoleculeForceAndMotionDataSet" where
  "promoteMolecule i ds =
     (let safe = numberOfSafeMolecules ds;
          apm = getAtomsPerMolecule ds;
          ds1 =
            (if i \<noteq> safe then ds
               \<lparr>atomPositions :=
                  foldl (\<lambda>a j. swapSlots a (num (safe * apm + j)) (num (apm * i + j)))
                    (atomPositions ds) [0..apm - 1],
                moleculeCenterOfMassPositions :=
                  swapSlots (moleculeCenterOfMassPositions ds) (num safe) (num i),
                moleculeVelocities := swapSlots (moleculeVelocities ds) (num safe) (num i),
                moleculeForces := swapSlots (moleculeForces ds) (num safe) (num i),
                moleculeRotationAngles :=
                  swapSlots (moleculeRotationAngles ds) (num safe) (num i),
                moleculeRotationRates :=
                  swapSlots (moleculeRotationRates ds) (num safe) (num i)\<rparr>
             else ds)
      in ds1\<lparr>numberOfSafeMolecules := safe + 1\<rparr>)"



subsection \<open>updatePressure\<close>

definition updatePressure ::
  "jsnum \<Rightarrow> AbstractVerletAlgorithm \<times> MultipleParticleModel \<Rightarrow>
   AbstractVerletAlgorithm \<times> MultipleParticleModel" where
  "updatePressure pressureZoneWallForce st =
     (let this = fst st; m = snd st in
      if isExploded m then (this\<lparr>pressure := Fin 0\<rparr>, m)
      else
        (let this1 = this
               \<lparr>pressure :=
                  jadd (jmul (jsub (Fin 1) PRESSURE_CALC_WEIGHTING)
                             (jdiv pressureZoneWallForce
                                   (jadd (normalizedContainerWidth m)
                                         (getNormalizedContainerHeight m))))
                       (jmul PRESSURE_CALC_WEIGHTING (pressure this))\<rparr>
         in if jgt (pressure this1) EXPLOSION_PRESSURE \<and> \<not> isExploded m
            then (this1, explodeContainer m)
            else (this1, m)))"

section \<open>MultipleParticleModel: the methods\<close>

definition LIQUID_TEMPERATURE :: jsnum where
  "LIQUID_TEMPERATURE = Fin 0.34"

definition MAX_TEMPERATURE :: jsnum where
  "MAX_TEMPERATURE = Fin 50.0"

definition MIN_TEMPERATURE :: jsnum where
  "MIN_TEMPERATURE = Fin 0.0001"

definition MAX_GRAVITATIONAL_ACCEL :: jsnum where
  "MAX_GRAVITATIONAL_ACCEL = Fin 0.4"

definition NO_THERMOSTAT :: int where
  "NO_THERMOSTAT = 0"

definition ISOKINETIC_THERMOSTAT :: int where
  "ISOKINETIC_THERMOSTAT = 1"

definition ANDERSEN_THERMOSTAT :: int where
  "ANDERSEN_THERMOSTAT = 2"

definition ADAPTIVE_THERMOSTAT :: int where
  "ADAPTIVE_THERMOSTAT = 3"

definition TEMPERATURE_CLOSENESS_RANGE :: jsnum where
  "TEMPERATURE_CLOSENESS_RANGE = Fin 0.15"

definition PARTICLE_EDGE_PROXIMITY_RANGE :: jsnum where
  "PARTICLE_EDGE_PROXIMITY_RANGE = Fin 2.5"

subsection \<open>setTemperature, setGravitationalAcceleration, injectMolecule\<close>

definition setTemperature :: "jsnum \<Rightarrow> MultipleParticleModel \<Rightarrow> MultipleParticleModel" where
  "setTemperature newTemperature m =
     (let m1 =
            (if jgt newTemperature MAX_TEMPERATURE then m\<lparr>temperatureSetPoint := MAX_TEMPERATURE\<rparr>
             else if jlt newTemperature MIN_TEMPERATURE
               then m\<lparr>temperatureSetPoint := MIN_TEMPERATURE\<rparr>
             else m\<lparr>temperatureSetPoint := newTemperature\<rparr>);
          m2 =
            (case isoKineticThermostat m1 of
               None \<Rightarrow> m1
             | Some t \<Rightarrow>
                 m1\<lparr>isoKineticThermostat := Some (t\<lparr>targetTemperature := newTemperature\<rparr>)\<rparr>)
      in (case andersenThermostat m2 of
            None \<Rightarrow> m2
          | Some t \<Rightarrow>
              m2\<lparr>andersenThermostat := Some (t\<lparr>targetTemperature := newTemperature\<rparr>)\<rparr>))"

text \<open>
  Each \<open>throw\<close> comes before the assignment that follows it in the source, so that
  assignment never runs and the model is as it was.
\<close>

definition setGravitationalAcceleration ::
  "jsnum \<Rightarrow> MultipleParticleModel \<Rightarrow> (unit, MultipleParticleModel) completion" where
  "setGravitationalAcceleration acceleration m =
     (if jgt acceleration MAX_GRAVITATIONAL_ACCEL then
        Throw (Error ''WARNING: Attempt to set out-of-range value for gravitational acceleration.'') m
      else if jlt acceleration (Fin 0) then
        Throw (Error ''WARNING: Attempt to set out-of-range value for gravitational acceleration.'') m
      else Return () (m\<lparr>gravitationalAcceleration := acceleration\<rparr>))"

text \<open>\<open>injectMolecule: function() {}\<close>: the body is empty.\<close>

definition injectMolecule :: "MultipleParticleModel \<Rightarrow> (unit, MultipleParticleModel) completion" where
  "injectMolecule m = Return () m"

subsection \<open>particlesNearTop\<close>

text \<open>
  The loop runs while \<open>i < this.moleculeDataSet.numberOfMolecules\<close>, the member
  modelled from the spec above; \<open>None\<close> stands for not returning.
\<close>

partial_function (option) particlesNearTopLoop ::
  "MoleculeForceAndMotionDataSet \<Rightarrow> jsnum \<Rightarrow> int \<Rightarrow> (js_error + bool) option" where
  "particlesNearTopLoop ds threshold i =
     (if jlt (num i) (numberOfMolecules ds) then
        (case moleculeCenterOfMassPositions ds (num i) of
           None \<Rightarrow> Some (Inl TypeError)
         | Some p \<Rightarrow>
             if jgt (vec_y p) threshold then Some (Inr True)
             else particlesNearTopLoop ds threshold (i + 1))
      else Some (Inr False))"

definition particlesNearTop :: "MultipleParticleModel \<Rightarrow> (js_error + bool) option" where
  "particlesNearTop m =
     (case moleculeDataSet m of
        None \<Rightarrow> Some (Inl TypeError)
      | Some ds \<Rightarrow>
          particlesNearTopLoop ds
            (jsub (normalizedContainerHeight m) PARTICLE_EDGE_PROXIMITY_RANGE) 0)"

subsection \<open>runThermostat\<close>

text \<open>
  What \<open>runThermostat\<close> does to the molecules it does through \<open>adjustTemperature\<close> of
  one of the two thermostats, classes that are not among the sources. The model returns
  the calls the method makes, in order, beside the state of the model, which the branch
  that sets the temperature from the kinetic energy changes. \<open>particlesNearTop()\<close> and
  \<open>setTemperature( ... )\<close> are called on the model itself.
\<close>

datatype thermostat_call = IsokineticAdjustTemperature | AndersenAdjustTemperature

definition runThermostat ::
  "MultipleParticleModel \<Rightarrow> (thermostat_call list, MultipleParticleModel) completion option"
  where
  "runThermostat m =
     (if isExploded m then Some (Return [] m)
      else
        (case moleculeForceAndMotionCalculator m of
           None \<Rightarrow> Some (Throw TypeError m)
         | Some calculator \<Rightarrow>
             (let calculatedTemperature = temperature calculator;
                  temperatureIsChanging =
                    (\<not> jseq (heatingCoolingAmount m) (Fin 0) \<or>
                     jlt (jadd (temperatureSetPoint m) TEMPERATURE_CLOSENESS_RANGE)
                         calculatedTemperature \<or>
                     jgt (jsub (temperatureSetPoint m) TEMPERATURE_CLOSENESS_RANGE)
                         calculatedTemperature)
              in
                (case (if heightChangeCounter m \<noteq> 0 then particlesNearTop m
                       else Some (Inr False)) of
                   None \<Rightarrow> None
                 | Some (Inl e) \<Rightarrow> Some (Throw e m)
                 | Some (Inr True) \<Rightarrow>
                     (case moleculeDataSet m of
                        None \<Rightarrow> Some (Throw TypeError m)
                      | Some ds \<Rightarrow>
                          (case calculateTemperatureFromKineticEnergy ds of
                             None \<Rightarrow> None
                           | Some (Inl e) \<Rightarrow> Some (Throw e m)
                           | Some (Inr t) \<Rightarrow> Some (Return [] (setTemperature t m))))
                 | Some (Inr False) \<Rightarrow>
                     (if thermostatType m = ISOKINETIC_THERMOSTAT \<or>
                         (thermostatType m = ADAPTIVE_THERMOSTAT \<and>
                          (temperatureIsChanging \<or>
                           jgt (temperatureSetPoint m) LIQUID_TEMPERATURE))
                      then
                        (case isoKineticThermostat m of
                           None \<Rightarrow> Some (Throw TypeError m)
                         | Some t \<Rightarrow> Some (Return [IsokineticAdjustTemperature] m))
                      else if thermostatType m = ANDERSEN_THERMOSTAT \<or>
                              (thermostatType m = ADAPTIVE_THERMOSTAT \<and>
                               \<not> temperatureIsChanging)
                      then
                        (case andersenThermostat m of
                           None \<Rightarrow> Some (Throw TypeError m)
                         | Some t \<Rightarrow> Some (Return [AndersenAdjustTemperature] m))
                      else Some (Return [] m))))))"

text \<open>The thermostat calls of a completion: a call that throws or never returns made none.\<close>

definition thermostat_calls ::
  "(thermostat_call list, MultipleParticleModel) completion option \<Rightarrow> thermostat_call list"
  where
  "thermostat_calls r = (case r of Some (Return calls m) \<Rightarrow> calls | _ \<Rightarrow> [])"

section \<open>Sample states\<close>

text \<open>
  A monatomic data set as the constructor leaves it, a calculator and a model in the
  state the model starts in (adaptive thermostat, not exploded), used to run the
  theorems below on concrete inputs.
\<close>

definition sampleDataSet :: MoleculeForceAndMotionDataSet where
  "sampleDataSet = newMoleculeForceAndMotionDataSet (Fin 0) (Fin 0) 1"

definition sampleCalculator :: AbstractVerletAlgorithm where
  "sampleCalculator = \<lparr>potentialEnergy = Fin 0, pressure = Fin 1, temperature = Fin 0\<rparr>"

definition sampleModel :: MultipleParticleModel where
  "sampleModel =
     \<lparr> isoKineticThermostat = Some \<lparr>targetTemperature = Fin 0.15\<rparr>,
       andersenThermostat = Some \<lparr>targetTemperature = Fin 0.15\<rparr>,
       moleculeForceAndMotionCalculator = Some sampleCalculator,
       moleculeDataSet = Some sampleDataSet,
       isExploded = False,
       normalizedContainerWidth = Fin 32,
       normalizedContainerHeight = Fin 32,
       gravitationalAcceleration = Fin 0.045,
       heatingCoolingAmount = Fin 0,
       temperatureSetPoint = Fin 0.15,
       thermostatType = 3,
       heightChangeCounter = 0 \<rparr>"

text \<open>
  One atom at the origin with no velocity, as \<open>initializeMonatomic\<close> adds it: the data
  set after that call of \<open>addMolecule\<close>, after \<open>updateMoleculeSafety\<close> has then
  counted the molecule as safe, and after \<open>removeMolecule( 0 )\<close> has then removed it.
  Where a capacity is needed below, \<open>MAX_NUM_ATOMS\<close> is taken as 500; any capacity
  other than the number of atoms held behaves the same.
\<close>

definition origin :: Vector2 where
  "origin = Vector2 (Fin 0) (Fin 0)"

definition oneUnsafeMolecule :: MoleculeForceAndMotionDataSet where
  "oneUnsafeMolecule = sampleDataSet
     \<lparr>numberOfAtoms := 1,
      atomPositions := [Fin 0 \<mapsto> origin],
      moleculeCenterOfMassPositions := [Fin 0 \<mapsto> origin],
      moleculeVelocities := [Fin 0 \<mapsto> origin],
      moleculeForces := [Fin 0 \<mapsto> origin],
      nextMoleculeForces := [Fin 0 \<mapsto> origin],
      moleculeRotationRates := [Fin 0 \<mapsto> Fin 0]\<rparr>"



section \<open>The invariant of the data set\<close>




section \<open>Facts about the numbers and vectors\<close>

lemma jlt_irrefl [simp]: "\<not> jlt a a"
  by (cases a) auto

lemma jlt_Fin_mono: "jlt a (Fin r) \<Longrightarrow> r \<le> s \<Longrightarrow> jlt a (Fin s)"
  by (cases a) auto

lemma vec_x_setY [simp]: "vec_x (setY a f) = vec_x f"
  by (cases f) simp

section \<open>The temperature of an empty data set\<close>

lemma polyatomicKineticEnergy_no_atoms:
  "numberOfAtoms ds = 0 \<Longrightarrow> polyatomicKineticEnergy ds 0 acc = Some (Inr acc)"
  by (subst polyatomicKineticEnergy.simps) simp

lemma calculateTemperature_no_atoms:
  assumes "numberOfAtoms ds = 0"
  shows "calculateTemperatureFromKineticEnergy ds = Some (Inr NaN)"
proof (cases "atomsPerMolecule ds = 1")
  case True
  with assms show ?thesis
    by (simp add: calculateTemperatureFromKineticEnergy_def monatomicKineticEnergy.simps)
next
  case False
  with assms show ?thesis
    by (simp add: calculateTemperatureFromKineticEnergy_def polyatomicKineticEnergy_no_atoms)
qed

text \<open>
  C8. The claim has \<open>calculateTemperatureFromKineticEnergy\<close> return 0 for a data set
  with no atoms. The method divides the summed energy, 0, by the number of atoms or of
  molecules, 0, with no guard: whatever \<open>atomsPerMolecule\<close> is, a data set fresh from
  the constructor gives \<open>NaN\<close>, which is not 0.
\<close>

theorem calculateTemperature_of_new_data_set_is_NaN:
  "calculateTemperatureFromKineticEnergy (newMoleculeForceAndMotionDataSet d w apm) =
     Some (Inr NaN) \<and>
   calculateTemperatureFromKineticEnergy (newMoleculeForceAndMotionDataSet d w apm) \<noteq>
     Some (Inr (Fin 0))"
  by (simp add: calculateTemperature_no_atoms newMoleculeForceAndMotionDataSet_def)

section \<open>The model's setters\<close>

text \<open>
  C7, as amended. An acceleration above \<open>MAX_GRAVITATIONAL_ACCEL\<close> or below 0, which is
  every value other than \<open>NaN\<close> that is not from 0 to \<open>MAX_GRAVITATIONAL_ACCEL\<close>, makes
  \<open>setGravitationalAcceleration\<close> throw and leaves the model, its
  \<open>gravitationalAcceleration\<close> included, as it was. Every other value is stored and
  nothing is thrown: the values from 0 to \<open>MAX_GRAVITATIONAL_ACCEL\<close>, and \<open>NaN\<close>, which
  is above and below nothing.
\<close>

theorem setGravitationalAcceleration_cases:
  "(jgt a MAX_GRAVITATIONAL_ACCEL \<or> jlt a (Fin 0) \<longrightarrow>
      setGravitationalAcceleration a m =
        Throw (Error ''WARNING: Attempt to set out-of-range value for gravitational acceleration.'') m \<and>
      gravitationalAcceleration (state_of (setGravitationalAcceleration a m)) =
        gravitationalAcceleration m) \<and>
   (a \<noteq> NaN \<and> \<not> (jle (Fin 0) a \<and> jle a MAX_GRAVITATIONAL_ACCEL) \<longrightarrow>
      setGravitationalAcceleration a m =
        Throw (Error ''WARNING: Attempt to set out-of-range value for gravitational acceleration.'') m) \<and>
   (jle (Fin 0) a \<and> jle a MAX_GRAVITATIONAL_ACCEL \<longrightarrow>
      setGravitationalAcceleration a m = Return () (m\<lparr>gravitationalAcceleration := a\<rparr>)) \<and>
   (\<not> jgt a MAX_GRAVITATIONAL_ACCEL \<and> \<not> jlt a (Fin 0) \<longrightarrow>
      setGravitationalAcceleration a m = Return () (m\<lparr>gravitationalAcceleration := a\<rparr>)) \<and>
   setGravitationalAcceleration NaN m = Return () (m\<lparr>gravitationalAcceleration := NaN\<rparr>)"
  by (cases a)
    (auto simp: setGravitationalAcceleration_def jgt_def jle_def MAX_GRAVITATIONAL_ACCEL_def)

theorem setGravitationalAcceleration_cases_witness:
  "setGravitationalAcceleration (Fin 1) sampleModel =
     Throw (Error ''WARNING: Attempt to set out-of-range value for gravitational acceleration.'')
       sampleModel \<and>
   gravitationalAcceleration (state_of (setGravitationalAcceleration (Fin 1) sampleModel)) =
     Fin 0.045 \<and>
   setGravitationalAcceleration (Fin (- 1)) sampleModel =
     Throw (Error ''WARNING: Attempt to set out-of-range value for gravitational acceleration.'')
       sampleModel \<and>
   setGravitationalAcceleration (Fin 0.2) sampleModel =
     Return () (sampleModel\<lparr>gravitationalAcceleration := Fin 0.2\<rparr>)"
  using setGravitationalAcceleration_cases [of "Fin 1" sampleModel]
    setGravitationalAcceleration_cases [of "Fin (- 1)" sampleModel]
    setGravitationalAcceleration_cases [of "Fin 0.2" sampleModel]
  by (simp add: jgt_def jle_def MAX_GRAVITATIONAL_ACCEL_def sampleModel_def)

text \<open>
  C7 as stated fails. \<open>NaN\<close> is not from 0 to \<open>MAX_GRAVITATIONAL_ACCEL\<close>, yet
  \<open>NaN > MAX_GRAVITATIONAL_ACCEL\<close> and \<open>NaN < 0\<close> are both false: the method takes its
  last branch, throws nothing and stores \<open>NaN\<close> over the 0.045 the model held.
\<close>

theorem setGravitationalAcceleration_stores_NaN:
  "\<not> (jle (Fin 0) NaN \<and> jle NaN MAX_GRAVITATIONAL_ACCEL) \<and>
   setGravitationalAcceleration NaN sampleModel =
     Return () (sampleModel\<lparr>gravitationalAcceleration := NaN\<rparr>) \<and>
   gravitationalAcceleration sampleModel = Fin 0.045 \<and>
   gravitationalAcceleration (state_of (setGravitationalAcceleration NaN sampleModel)) = NaN"
  by (simp add: setGravitationalAcceleration_def jgt_def jle_def sampleModel_def
      MAX_GRAVITATIONAL_ACCEL_def)

lemma setTemperature_set_point:
  "temperatureSetPoint (setTemperature t m) =
     (if jgt t MAX_TEMPERATURE then MAX_TEMPERATURE
      else if jlt t MIN_TEMPERATURE then MIN_TEMPERATURE else t)"
  by (simp add: setTemperature_def Let_def split: option.split)

lemma setTemperature_thermostats:
  "isoKineticThermostat (setTemperature t m) =
     map_option (\<lambda>th. th\<lparr>targetTemperature := t\<rparr>) (isoKineticThermostat m)"
  "andersenThermostat (setTemperature t m) =
     map_option (\<lambda>th. th\<lparr>targetTemperature := t\<rparr>) (andersenThermostat m)"
  by (simp_all add: setTemperature_def Let_def split: option.split)

lemma setTemperature_frame:
  "moleculeForceAndMotionCalculator (setTemperature t m) = moleculeForceAndMotionCalculator m"
  "moleculeDataSet (setTemperature t m) = moleculeDataSet m"
  "isExploded (setTemperature t m) = isExploded m"
  "normalizedContainerWidth (setTemperature t m) = normalizedContainerWidth m"
  "normalizedContainerHeight (setTemperature t m) = normalizedContainerHeight m"
  "gravitationalAcceleration (setTemperature t m) = gravitationalAcceleration m"
  "heatingCoolingAmount (setTemperature t m) = heatingCoolingAmount m"
  "thermostatType (setTemperature t m) = thermostatType m"
  "heightChangeCounter (setTemperature t m) = heightChangeCounter m"
  by (cases "isoKineticThermostat m"; cases "andersenThermostat m";
      simp add: setTemperature_def Let_def)+

text \<open>
  C9, as amended. For every value other than \<open>NaN\<close>, \<open>setTemperature\<close> stores the value
  clamped: \<open>MAX_TEMPERATURE\<close> for a value above it, \<open>MIN_TEMPERATURE\<close> for a value
  below it, the value itself when it is within the two, so that the set point is within
  the two. \<open>NaN\<close> is above and below nothing and is stored as it is. For every value,
  each thermostat the model has is given the value as it came, not the clamped one (a
  model without that thermostat stays without it), and no other field of the model
  changes: for a value above \<open>MAX_TEMPERATURE\<close> or below \<open>MIN_TEMPERATURE\<close> the target
  of each thermostat differs from the set point.
\<close>

theorem setTemperature_set_point_and_targets:
  "temperatureSetPoint (setTemperature t m) =
     (if jgt t MAX_TEMPERATURE then MAX_TEMPERATURE
      else if jlt t MIN_TEMPERATURE then MIN_TEMPERATURE else t) \<and>
   (jgt t MAX_TEMPERATURE \<longrightarrow> temperatureSetPoint (setTemperature t m) = MAX_TEMPERATURE) \<and>
   (jlt t MIN_TEMPERATURE \<longrightarrow> temperatureSetPoint (setTemperature t m) = MIN_TEMPERATURE) \<and>
   (jle MIN_TEMPERATURE t \<and> jle t MAX_TEMPERATURE \<longrightarrow>
      temperatureSetPoint (setTemperature t m) = t) \<and>
   (t \<noteq> NaN \<longrightarrow>
      jle MIN_TEMPERATURE (temperatureSetPoint (setTemperature t m)) \<and>
      jle (temperatureSetPoint (setTemperature t m)) MAX_TEMPERATURE) \<and>
   temperatureSetPoint (setTemperature NaN m) = NaN \<and>
   isoKineticThermostat (setTemperature t m) =
     map_option (\<lambda>th. th\<lparr>targetTemperature := t\<rparr>) (isoKineticThermostat m) \<and>
   andersenThermostat (setTemperature t m) =
     map_option (\<lambda>th. th\<lparr>targetTemperature := t\<rparr>) (andersenThermostat m) \<and>
   (jgt t MAX_TEMPERATURE \<or> jlt t MIN_TEMPERATURE \<longrightarrow>
      temperatureSetPoint (setTemperature t m) \<noteq> t \<and>
      (\<forall>th. isoKineticThermostat (setTemperature t m) = Some th \<longrightarrow>
         targetTemperature th = t \<and>
         targetTemperature th \<noteq> temperatureSetPoint (setTemperature t m)) \<and>
      (\<forall>th. andersenThermostat (setTemperature t m) = Some th \<longrightarrow>
         targetTemperature th = t \<and>
         targetTemperature th \<noteq> temperatureSetPoint (setTemperature t m))) \<and>
   moleculeForceAndMotionCalculator (setTemperature t m) = moleculeForceAndMotionCalculator m \<and>
   moleculeDataSet (setTemperature t m) = moleculeDataSet m \<and>
   isExploded (setTemperature t m) = isExploded m \<and>
   normalizedContainerWidth (setTemperature t m) = normalizedContainerWidth m \<and>
   normalizedContainerHeight (setTemperature t m) = normalizedContainerHeight m \<and>
   gravitationalAcceleration (setTemperature t m) = gravitationalAcceleration m \<and>
   heatingCoolingAmount (setTemperature t m) = heatingCoolingAmount m \<and>
   thermostatType (setTemperature t m) = thermostatType m \<and>
   heightChangeCounter (setTemperature t m) = heightChangeCounter m"
proof -
  note sp = setTemperature_set_point
  note tht = setTemperature_thermostats
  note defs = jgt_def jle_def MAX_TEMPERATURE_def MIN_TEMPERATURE_def
  have above: "jgt t MAX_TEMPERATURE \<longrightarrow> temperatureSetPoint (setTemperature t m) = MAX_TEMPERATURE"
    by (simp add: sp)
  have below: "jlt t MIN_TEMPERATURE \<longrightarrow> temperatureSetPoint (setTemperature t m) = MIN_TEMPERATURE"
    by (cases t) (simp_all add: sp defs)
  have within: "jle MIN_TEMPERATURE t \<and> jle t MAX_TEMPERATURE \<longrightarrow>
      temperatureSetPoint (setTemperature t m) = t"
    by (cases t) (simp_all add: sp defs)
  have range: "t \<noteq> NaN \<longrightarrow>
      jle MIN_TEMPERATURE (temperatureSetPoint (setTemperature t m)) \<and>
      jle (temperatureSetPoint (setTemperature t m)) MAX_TEMPERATURE"
    by (cases t) (simp_all add: sp defs)
  have nan: "temperatureSetPoint (setTemperature NaN m) = NaN"
    by (simp add: sp defs)
  have differ: "jgt t MAX_TEMPERATURE \<or> jlt t MIN_TEMPERATURE \<longrightarrow>
      temperatureSetPoint (setTemperature t m) \<noteq> t"
    by (cases t) (simp_all add: sp defs)
  have iso: "\<forall>th. isoKineticThermostat (setTemperature t m) = Some th \<longrightarrow>
      targetTemperature th = t"
    by (cases "isoKineticThermostat m") (simp_all add: tht)
  have andersen: "\<forall>th. andersenThermostat (setTemperature t m) = Some th \<longrightarrow>
      targetTemperature th = t"
    by (cases "andersenThermostat m") (simp_all add: tht)
  have targets: "jgt t MAX_TEMPERATURE \<or> jlt t MIN_TEMPERATURE \<longrightarrow>
      temperatureSetPoint (setTemperature t m) \<noteq> t \<and>
      (\<forall>th. isoKineticThermostat (setTemperature t m) = Some th \<longrightarrow>
         targetTemperature th = t \<and>
         targetTemperature th \<noteq> temperatureSetPoint (setTemperature t m)) \<and>
      (\<forall>th. andersenThermostat (setTemperature t m) = Some th \<longrightarrow>
         targetTemperature th = t \<and>
         targetTemperature th \<noteq> temperatureSetPoint (setTemperature t m))"
    using differ iso andersen by metis
  show ?thesis
    by (intro conjI sp above below within range nan tht targets setTemperature_frame)
qed

theorem setTemperature_set_point_and_targets_witness:
  "temperatureSetPoint (setTemperature (Fin 80) sampleModel) = Fin 50 \<and>
   isoKineticThermostat (setTemperature (Fin 80) sampleModel) =
     Some \<lparr>targetTemperature = Fin 80\<rparr> \<and>
   andersenThermostat (setTemperature (Fin 80) sampleModel) =
     Some \<lparr>targetTemperature = Fin 80\<rparr> \<and>
   temperatureSetPoint (setTemperature (Fin 0) sampleModel) = Fin 0.0001 \<and>
   isoKineticThermostat (setTemperature (Fin 0) sampleModel) =
     Some \<lparr>targetTemperature = Fin 0\<rparr> \<and>
   temperatureSetPoint (setTemperature (Fin 0.5) sampleModel) = Fin 0.5 \<and>
   andersenThermostat (setTemperature (Fin 0.5) sampleModel) =
     Some \<lparr>targetTemperature = Fin 0.5\<rparr>"
proof -
  note defs = jgt_def jle_def MAX_TEMPERATURE_def MIN_TEMPERATURE_def sampleModel_def
  have "temperatureSetPoint (setTemperature (Fin 80) sampleModel) = Fin 50"
    using setTemperature_set_point_and_targets [of "Fin 80" sampleModel, THEN conjunct1]
    by (simp add: defs)
  moreover have "temperatureSetPoint (setTemperature (Fin 0) sampleModel) = Fin 0.0001"
    using setTemperature_set_point_and_targets [of "Fin 0" sampleModel, THEN conjunct1]
    by (simp add: defs)
  moreover have "temperatureSetPoint (setTemperature (Fin 0.5) sampleModel) = Fin 0.5"
    using setTemperature_set_point_and_targets [of "Fin 0.5" sampleModel, THEN conjunct1]
    by (simp add: defs)
  moreover have "isoKineticThermostat (setTemperature (Fin 80) sampleModel) =
      Some \<lparr>targetTemperature = Fin 80\<rparr>"
    "andersenThermostat (setTemperature (Fin 80) sampleModel) =
      Some \<lparr>targetTemperature = Fin 80\<rparr>"
    "isoKineticThermostat (setTemperature (Fin 0) sampleModel) =
      Some \<lparr>targetTemperature = Fin 0\<rparr>"
    "andersenThermostat (setTemperature (Fin 0.5) sampleModel) =
      Some \<lparr>targetTemperature = Fin 0.5\<rparr>"
    by (simp_all add: setTemperature_thermostats sampleModel_def)
  ultimately show ?thesis by simp
qed

text \<open>
  C9 as stated fails. Given \<open>NaN\<close>, \<open>setTemperature\<close> stores \<open>NaN\<close> as the set point,
  which is not within \<open>MIN_TEMPERATURE\<close> and \<open>MAX_TEMPERATURE\<close>: the set point is
  clamped for every number, not for every value.
\<close>

theorem setTemperature_stores_NaN:
  "temperatureSetPoint (setTemperature NaN sampleModel) = NaN \<and>
   \<not> (jle MIN_TEMPERATURE (temperatureSetPoint (setTemperature NaN sampleModel)) \<and>
      jle (temperatureSetPoint (setTemperature NaN sampleModel)) MAX_TEMPERATURE)"
  by (simp add: setTemperature_def Let_def jgt_def jle_def sampleModel_def
      MAX_TEMPERATURE_def MIN_TEMPERATURE_def)

text \<open>
  C6. The claim has \<open>injectMolecule\<close> add one molecule when capacity remains, as the
  comment above the method says it does. The body of the method is empty: the model,
  the data set it holds included, is the same after the call, whatever the capacity.
\<close>

theorem injectMolecule_changes_nothing:
  "injectMolecule m = Return () m \<and>
   moleculeDataSet (state_of (injectMolecule sampleModel)) = Some sampleDataSet \<and>
   numberOfAtoms sampleDataSet = 0 \<and>
   getNumberOfRemainingSlots 500 sampleDataSet = Fin 500"
  by (simp add: injectMolecule_def sampleModel_def sampleDataSet_def
      newMoleculeForceAndMotionDataSet_def getNumberOfRemainingSlots_def jsub_def)

section \<open>The thermostat policy\<close>

lemma runThermostat_shape:
  "thermostat_calls (runThermostat m) = [] \<or>
   thermostat_calls (runThermostat m) = [IsokineticAdjustTemperature] \<or>
   thermostat_calls (runThermostat m) = [AndersenAdjustTemperature]"
proof (cases "isExploded m")
  case True
  then show ?thesis by (simp add: runThermostat_def thermostat_calls_def)
next
  case notExploded: False
  show ?thesis
  proof (cases "moleculeForceAndMotionCalculator m")
    case None
    with notExploded show ?thesis by (simp add: runThermostat_def thermostat_calls_def)
  next
    case (Some calculator)
    define near where
      "near = (if heightChangeCounter m \<noteq> 0 then particlesNearTop m else Some (Inr False))"
    consider "near = None" | e where "near = Some (Inl e)"
      | "near = Some (Inr True)" | "near = Some (Inr False)"
    proof (cases near)
      case None
      then show ?thesis using that by blast
    next
      case (Some a)
      then show ?thesis using that by (cases a) auto
    qed
    then show ?thesis
    proof cases
      case 1
      with notExploded Some show ?thesis
        by (simp add: runThermostat_def thermostat_calls_def Let_def near_def [symmetric])
    next
      case 2
      with notExploded Some show ?thesis
        by (simp add: runThermostat_def thermostat_calls_def Let_def near_def [symmetric])
    next
      case 3
      with notExploded Some show ?thesis
        by (simp add: runThermostat_def thermostat_calls_def Let_def near_def [symmetric]
            split: option.split sum.split)
    next
      case 4
      with notExploded Some show ?thesis
        by (simp add: runThermostat_def thermostat_calls_def Let_def near_def [symmetric]
            split: option.split)
    qed
  qed
qed

lemma runThermostat_exploded:
  "isExploded m \<Longrightarrow> runThermostat m = Some (Return [] m)"
  by (simp add: runThermostat_def)

text \<open>
  C5. A call of \<open>runThermostat\<close>, which the model makes once per sub-step, calls
  \<open>adjustTemperature\<close> of at most one thermostat, never of both; when the container
  is exploded it returns at once, the model unchanged and no thermostat called.
\<close>

theorem runThermostat_at_most_one:
  "length (thermostat_calls (runThermostat m)) \<le> 1 \<and>
   \<not> (IsokineticAdjustTemperature \<in> set (thermostat_calls (runThermostat m)) \<and>
      AndersenAdjustTemperature \<in> set (thermostat_calls (runThermostat m))) \<and>
   (isExploded m \<longrightarrow>
      runThermostat m = Some (Return [] m) \<and> thermostat_calls (runThermostat m) = [])"
proof -
  have "length (thermostat_calls (runThermostat m)) \<le> 1"
    using runThermostat_shape [of m] by auto
  moreover have
    "\<not> (IsokineticAdjustTemperature \<in> set (thermostat_calls (runThermostat m)) \<and>
        AndersenAdjustTemperature \<in> set (thermostat_calls (runThermostat m)))"
    using runThermostat_shape [of m] by auto
  moreover have "isExploded m \<longrightarrow>
      runThermostat m = Some (Return [] m) \<and> thermostat_calls (runThermostat m) = []"
    by (simp add: runThermostat_exploded thermostat_calls_def)
  ultimately show ?thesis by blast
qed

theorem runThermostat_at_most_one_witness:
  "runThermostat sampleModel = Some (Return [AndersenAdjustTemperature] sampleModel) \<and>
   runThermostat (sampleModel\<lparr>temperatureSetPoint := Fin 1\<rparr>) =
     Some (Return [IsokineticAdjustTemperature] (sampleModel\<lparr>temperatureSetPoint := Fin 1\<rparr>)) \<and>
   runThermostat (sampleModel\<lparr>isExploded := True\<rparr>) =
     Some (Return [] (sampleModel\<lparr>isExploded := True\<rparr>)) \<and>
   length (thermostat_calls (runThermostat sampleModel)) \<le> 1"
  using runThermostat_at_most_one [of sampleModel]
    runThermostat_at_most_one [of "sampleModel\<lparr>isExploded := True\<rparr>"]
  by (simp add: runThermostat_def Let_def sampleModel_def sampleCalculator_def jseq_def
      jgt_def jsub_def TEMPERATURE_CLOSENESS_RANGE_def LIQUID_TEMPERATURE_def
      ADAPTIVE_THERMOSTAT_def ISOKINETIC_THERMOSTAT_def ANDERSEN_THERMOSTAT_def)

section \<open>The calculator: pressure and wall force\<close>

text \<open>
  C2. \<open>updatePressure\<close> sets the pressure to 0 when the model is exploded, and changes
  nothing else. Otherwise the new pressure is
  \<open>(1 - 0.999) * (wallForceSum / (width + height)) + 0.999 *\<close> the previous pressure,
  width being the normalized container width of the model and height what its
  \<open>getNormalizedContainerHeight\<close> returns, and nothing else of the calculator changes;
  when that pressure is above the explosion threshold 1.05 the calculator calls
  \<open>explodeContainer\<close> on the model, which is exploded from then on; when it is not
  above the threshold the model is as it was.
\<close>

theorem updatePressure_moving_average:
  "(isExploded m \<longrightarrow> updatePressure w (this, m) = (this\<lparr>pressure := Fin 0\<rparr>, m)) \<and>
   (\<not> isExploded m \<longrightarrow>
      fst (updatePressure w (this, m)) = this
        \<lparr>pressure :=
           jadd (jmul (jsub (Fin 1) (Fin 0.999))
                      (jdiv w (jadd (normalizedContainerWidth m)
                                    (getNormalizedContainerHeight m))))
                (jmul (Fin 0.999) (pressure this))\<rparr>) \<and>
   getNormalizedContainerHeight m = normalizedContainerHeight m \<and>
   (\<not> isExploded m \<and> jgt (pressure (fst (updatePressure w (this, m)))) (Fin 1.05) \<longrightarrow>
      snd (updatePressure w (this, m)) = explodeContainer m \<and>
      isExploded (snd (updatePressure w (this, m)))) \<and>
   (\<not> isExploded m \<and> \<not> jgt (pressure (fst (updatePressure w (this, m)))) (Fin 1.05) \<longrightarrow>
      snd (updatePressure w (this, m)) = m)"
  by (simp add: updatePressure_def Let_def PRESSURE_CALC_WEIGHTING_def EXPLOSION_PRESSURE_def
      explodeContainer_def getNormalizedContainerHeight_def)

theorem updatePressure_moving_average_witness:
  "updatePressure (Fin 6400) (sampleCalculator, sampleModel) =
     (sampleCalculator\<lparr>pressure := Fin 1.099\<rparr>, sampleModel\<lparr>isExploded := True\<rparr>) \<and>
   updatePressure (Fin 64) (sampleCalculator, sampleModel) =
     (sampleCalculator\<lparr>pressure := Fin 1\<rparr>, sampleModel) \<and>
   updatePressure (Fin 64) (sampleCalculator, sampleModel\<lparr>isExploded := True\<rparr>) =
     (sampleCalculator\<lparr>pressure := Fin 0\<rparr>, sampleModel\<lparr>isExploded := True\<rparr>)"
  using updatePressure_moving_average [of sampleModel "Fin 6400" sampleCalculator]
    updatePressure_moving_average [of "sampleModel\<lparr>isExploded := True\<rparr>" "Fin 64" sampleCalculator]
  by (simp add: updatePressure_def Let_def PRESSURE_CALC_WEIGHTING_def EXPLOSION_PRESSURE_def
      sampleModel_def sampleCalculator_def jsub_def jgt_def explodeContainer_def
      getNormalizedContainerHeight_def)

text \<open>
  The same average on finite numbers, in the arithmetic of the reals: the perimeter
  must not be 0, where JavaScript divides to an infinity or to \<open>NaN\<close>.
\<close>

lemma updatePressure_finite:
  assumes "\<not> isExploded m" and "normalizedContainerWidth m = Fin cw"
    and "normalizedContainerHeight m = Fin ch" and "cw + ch \<noteq> 0" and "pressure this = Fin p"
  shows "pressure (fst (updatePressure (Fin w) (this, m))) =
     Fin ((1 - 0.999) * (w / (cw + ch)) + 0.999 * p)"
  using assms
  by (simp add: updatePressure_def Let_def PRESSURE_CALC_WEIGHTING_def jsub_def
      getNormalizedContainerHeight_def)

text \<open>
  C3. When \<open>calculateWallForce\<close> evaluates a position whose y-coordinate is below 0
  (position and resultant force both given, so that it evaluates at all) and the model
  is not exploded, the model after the call is the one \<open>explodeContainer\<close> leaves:
  its \<open>isExploded\<close> is true.
\<close>

theorem calculateWallForce_below_floor_explodes:
  assumes "jlt (vec_y p) (Fin 0)" and "\<not> isExploded m"
  shows "snd (snd (state_of (calculateWallForce a (Some p) cw ch (Some force, this, m)))) =
           explodeContainer m \<and>
         isExploded (snd (snd (state_of
           (calculateWallForce a (Some p) cw ch (Some force, this, m)))))"
proof -
  have below: "jlt (vec_y p) WALL_DISTANCE_THRESHOLD"
    "jlt (vec_y p) (jmul WALL_DISTANCE_THRESHOLD (Fin 0.8))"
    using assms(1) by (auto simp: WALL_DISTANCE_THRESHOLD_def intro: jlt_Fin_mono)
  show ?thesis
    using assms below
    by (simp add: calculateWallForce_def wallForceY_def Let_def explodeContainer_def)
qed

theorem calculateWallForce_below_floor_explodes_witness:
  "jlt (vec_y (Vector2 (Fin 5) (Fin (- 1)))) (Fin 0) \<and> \<not> isExploded sampleModel \<and>
   isExploded (snd (snd (state_of
     (calculateWallForce False (Some (Vector2 (Fin 5) (Fin (- 1)))) (Fin 32) (Fin 32)
        (Some (Vector2 (Fin 0) (Fin 0)), sampleCalculator, sampleModel)))))"
proof -
  have y: "jlt (vec_y (Vector2 (Fin 5) (Fin (- 1)))) (Fin 0)" by simp
  have m: "\<not> isExploded sampleModel" by (simp add: sampleModel_def)
  show ?thesis
    using y m
      calculateWallForce_below_floor_explodes [OF y m, of False "Fin 32" "Fin 32"
        "Vector2 (Fin 0) (Fin 0)" sampleCalculator]
    by (simp add: explodeContainer_def)
qed

lemma wallForceY_keeps_x:
  "vec_x (fst (wallForceY xPos yPos cw ch (force, this, m))) = vec_x force"
  by (simp add: wallForceY_def Let_def)

lemma wallForceX_gate:
  "\<not> jlt yPos (normalizedContainerWidth m) \<Longrightarrow>
   wallForceX m xPos yPos cw (force, this) = (xPos, force, this)"
  by (simp add: wallForceX_def Let_def)

text \<open>
  C10. The force of the left and right walls is computed under the test that the
  y-coordinate is below the normalized container width. For a position at or above
  that height the X block changes neither the resultant force nor the potential
  energy, however close the position is to a side wall: the whole method does what
  its Y block alone does, and the x-component of the resultant force is the one it
  was called with.
\<close>

theorem calculateWallForce_horizontal_gate:
  assumes "\<not> jlt (vec_y p) (normalizedContainerWidth m)"
  shows "wallForceX m (vec_x p) (vec_y p) cw (force, this) = (vec_x p, force, this) \<and>
         calculateWallForce a (Some p) cw ch (Some force, this, m) =
           Return () (Some (fst (wallForceY (vec_x p) (vec_y p) cw ch (force, this, m))),
                      snd (wallForceY (vec_x p) (vec_y p) cw ch (force, this, m))) \<and>
         vec_x (fst (wallForceY (vec_x p) (vec_y p) cw ch (force, this, m))) = vec_x force"
  using assms
  by (simp add: calculateWallForce_def wallForceX_gate wallForceY_keeps_x Let_def)

theorem calculateWallForce_horizontal_gate_witness:
  "\<not> jlt (vec_y (Vector2 (Fin 0.5) (Fin 40))) (normalizedContainerWidth sampleModel) \<and>
   calculateWallForce False (Some (Vector2 (Fin 0.5) (Fin 40))) (Fin 32) (Fin 64)
       (Some (Vector2 (Fin 7) (Fin 0)), sampleCalculator, sampleModel) =
     Return () (Some (Vector2 (Fin 7) (Fin 0)), sampleCalculator, sampleModel)"
proof -
  have y: "\<not> jlt (vec_y (Vector2 (Fin 0.5) (Fin 40))) (normalizedContainerWidth sampleModel)"
    by (simp add: sampleModel_def)
  have "wallForceY (Fin 0.5) (Fin 40) (Fin 32) (Fin 64)
          (Vector2 (Fin 7) (Fin 0), sampleCalculator, sampleModel) =
        (Vector2 (Fin 7) (Fin 0), sampleCalculator, sampleModel)"
    by (simp add: wallForceY_def Let_def WALL_DISTANCE_THRESHOLD_def jsub_def)
  then show ?thesis
    using y
      calculateWallForce_horizontal_gate [OF y, of "Fin 32" "Vector2 (Fin 7) (Fin 0)"
        sampleCalculator False "Fin 64"]
    by simp
qed

section \<open>Adding a molecule\<close>


lemma copyAtomPositions_returns:
  assumes "0 \<le> i" and "atomsPerMolecule ds \<le> int (length aps)"
  shows "\<exists>A. copyAtomPositions aps i ds = Return () (ds\<lparr>atomPositions := A\<rparr>) \<and>
           (\<forall>j. i \<le> j \<and> j < atomsPerMolecule ds \<longrightarrow>
              A (num (numberOfAtoms ds + j)) = Some (aps ! nat j)) \<and>
           (\<forall>k. (\<forall>j. i \<le> j \<and> j < atomsPerMolecule ds \<longrightarrow> k \<noteq> num (numberOfAtoms ds + j)) \<longrightarrow>
              A k = atomPositions ds k)"
  using assms
proof (induction aps i ds rule: copyAtomPositions.induct)
  case (1 aps i ds)
  show ?case
  proof (cases "i < atomsPerMolecule ds")
    case False
    then have "copyAtomPositions aps i ds = Return () (ds\<lparr>atomPositions := atomPositions ds\<rparr>)"
      by (subst copyAtomPositions.simps) simp
    with False show ?thesis by (intro exI [of _ "atomPositions ds"]) auto
  next
    case True
    let ?ds1 = "ds\<lparr>atomPositions := (atomPositions ds)(num (i + numberOfAtoms ds) \<mapsto> aps ! nat i)\<rparr>"
    from True "1.prems" have inRange: "0 \<le> i \<and> nat i < length aps" by linarith
    from "1.IH" [OF True inRange] "1.prems" obtain A where
      A: "copyAtomPositions aps (i + 1) ?ds1 = Return () (?ds1\<lparr>atomPositions := A\<rparr>)"
        "\<forall>j. i + 1 \<le> j \<and> j < atomsPerMolecule ds \<longrightarrow>
           A (num (numberOfAtoms ds + j)) = Some (aps ! nat j)"
        "\<forall>k. (\<forall>j. i + 1 \<le> j \<and> j < atomsPerMolecule ds \<longrightarrow> k \<noteq> num (numberOfAtoms ds + j)) \<longrightarrow>
           A k = atomPositions ?ds1 k"
      by auto
    have eq: "copyAtomPositions aps i ds = Return () (ds\<lparr>atomPositions := A\<rparr>)"
      using True inRange A(1) by (subst copyAtomPositions.simps) simp
    have here: "A (num (numberOfAtoms ds + i)) = Some (aps ! nat i)"
      using A(3) [rule_format, of "num (numberOfAtoms ds + i)"] by (simp add: add.commute)
    have set: "\<forall>j. i \<le> j \<and> j < atomsPerMolecule ds \<longrightarrow>
        A (num (numberOfAtoms ds + j)) = Some (aps ! nat j)"
    proof (intro allI impI)
      fix j assume j: "i \<le> j \<and> j < atomsPerMolecule ds"
      show "A (num (numberOfAtoms ds + j)) = Some (aps ! nat j)"
      proof (cases "j = i")
        case True
        with here show ?thesis by simp
      next
        case False
        with j A(2) show ?thesis by simp
      qed
    qed
    have frame: "\<forall>k. (\<forall>j. i \<le> j \<and> j < atomsPerMolecule ds \<longrightarrow> k \<noteq> num (numberOfAtoms ds + j)) \<longrightarrow>
        A k = atomPositions ds k"
    proof (intro allI impI)
      fix k assume k: "\<forall>j. i \<le> j \<and> j < atomsPerMolecule ds \<longrightarrow> k \<noteq> num (numberOfAtoms ds + j)"
      then have "k \<noteq> num (numberOfAtoms ds + i)" using True by auto
      moreover have "A k = atomPositions ?ds1 k" using A(3) k by auto
      ultimately show "A k = atomPositions ds k" by (auto simp: add.commute)
    qed
    from eq set frame show ?thesis by blast
  qed
qed

lemma sample_addMolecule:
  "addMolecule False 500 [origin] origin origin (Fin 0) sampleDataSet =
     Return True oneUnsafeMolecule"
  by (simp add: addMolecule_def getNumberOfRemainingSlots_def jsub_def jseq_def Let_def
      copyAtomPositions.simps sampleDataSet_def newMoleculeForceAndMotionDataSet_def
      oneUnsafeMolecule_def origin_def isNaN_def)

text \<open>
  C4. When \<open>getNumberOfRemainingSlots()\<close> is 0, \<open>addMolecule\<close> returns false and the
  data set is as it was. Otherwise, given the atoms of the molecule (at least
  \<open>atomsPerMolecule\<close> of them) and, where assertions are enabled, a center of mass whose
  x is not \<open>NaN\<close>, it returns true: the atoms are in the slots \<open>numberOfAtoms\<close> to
  \<open>numberOfAtoms + atomsPerMolecule - 1\<close> of \<open>atomPositions\<close>, every other slot being as
  it was; the center of mass, the velocity and the rotation rate are in the slot
  \<open>numberOfAtoms / atomsPerMolecule\<close>, the first one past the molecules held;
  \<open>numberOfAtoms\<close> has grown by \<open>atomsPerMolecule\<close> and \<open>numberOfSafeMolecules\<close> is as
  it was.
\<close>

theorem addMolecule_contract:
  "(jseq (getNumberOfRemainingSlots MAX_NUM_ATOMS ds) (Fin 0) \<longrightarrow>
      addMolecule a MAX_NUM_ATOMS aps com v r ds = Return False ds) \<and>
   (\<not> jseq (getNumberOfRemainingSlots MAX_NUM_ATOMS ds) (Fin 0) \<and>
    atomsPerMolecule ds \<le> int (length aps) \<and> \<not> (a \<and> isNaN (vec_x com)) \<longrightarrow>
      (\<exists>ds'. addMolecule a MAX_NUM_ATOMS aps com v r ds = Return True ds' \<and>
         numberOfAtoms ds' = numberOfAtoms ds + atomsPerMolecule ds \<and>
         numberOfSafeMolecules ds' = numberOfSafeMolecules ds \<and>
         atomsPerMolecule ds' = atomsPerMolecule ds \<and>
         (\<forall>j. 0 \<le> j \<and> j < atomsPerMolecule ds \<longrightarrow>
            atomPositions ds' (num (numberOfAtoms ds + j)) = Some (aps ! nat j)) \<and>
         (\<forall>k. (\<forall>j. 0 \<le> j \<and> j < atomsPerMolecule ds \<longrightarrow> k \<noteq> num (numberOfAtoms ds + j)) \<longrightarrow>
            atomPositions ds' k = atomPositions ds k) \<and>
         moleculeCenterOfMassPositions ds' =
           (moleculeCenterOfMassPositions ds)(getNumberOfMolecules ds \<mapsto> com) \<and>
         moleculeVelocities ds' = (moleculeVelocities ds)(getNumberOfMolecules ds \<mapsto> v) \<and>
         moleculeRotationRates ds' = (moleculeRotationRates ds)(getNumberOfMolecules ds \<mapsto> r) \<and>
         moleculeForces ds' =
           (moleculeForces ds)(getNumberOfMolecules ds \<mapsto> Vector2 (Fin 0) (Fin 0)) \<and>
         nextMoleculeForces ds' =
           (nextMoleculeForces ds)(getNumberOfMolecules ds \<mapsto> Vector2 (Fin 0) (Fin 0)) \<and>
         moleculeRotationAngles ds' = moleculeRotationAngles ds \<and>
         moleculeTorques ds' = moleculeTorques ds \<and>
         nextMoleculeTorques ds' = nextMoleculeTorques ds \<and>
         moleculeMass ds' = moleculeMass ds \<and>
         moleculeRotationalInertia ds' = moleculeRotationalInertia ds))"
proof (intro conjI impI)
  assume "jseq (getNumberOfRemainingSlots MAX_NUM_ATOMS ds) (Fin 0)"
  then show "addMolecule a MAX_NUM_ATOMS aps com v r ds = Return False ds"
    by (simp add: addMolecule_def)
next
  assume h: "\<not> jseq (getNumberOfRemainingSlots MAX_NUM_ATOMS ds) (Fin 0) \<and>
    atomsPerMolecule ds \<le> int (length aps) \<and> \<not> (a \<and> isNaN (vec_x com))"
  from copyAtomPositions_returns [of 0 ds aps] h obtain A where
    A: "copyAtomPositions aps 0 ds = Return () (ds\<lparr>atomPositions := A\<rparr>)"
      "\<forall>j. 0 \<le> j \<and> j < atomsPerMolecule ds \<longrightarrow>
         A (num (numberOfAtoms ds + j)) = Some (aps ! nat j)"
      "\<forall>k. (\<forall>j. 0 \<le> j \<and> j < atomsPerMolecule ds \<longrightarrow> k \<noteq> num (numberOfAtoms ds + j)) \<longrightarrow>
         A k = atomPositions ds k"
    by auto
  show "\<exists>ds'. addMolecule a MAX_NUM_ATOMS aps com v r ds = Return True ds' \<and>
         numberOfAtoms ds' = numberOfAtoms ds + atomsPerMolecule ds \<and>
         numberOfSafeMolecules ds' = numberOfSafeMolecules ds \<and>
         atomsPerMolecule ds' = atomsPerMolecule ds \<and>
         (\<forall>j. 0 \<le> j \<and> j < atomsPerMolecule ds \<longrightarrow>
            atomPositions ds' (num (numberOfAtoms ds + j)) = Some (aps ! nat j)) \<and>
         (\<forall>k. (\<forall>j. 0 \<le> j \<and> j < atomsPerMolecule ds \<longrightarrow> k \<noteq> num (numberOfAtoms ds + j)) \<longrightarrow>
            atomPositions ds' k = atomPositions ds k) \<and>
         moleculeCenterOfMassPositions ds' =
           (moleculeCenterOfMassPositions ds)(getNumberOfMolecules ds \<mapsto> com) \<and>
         moleculeVelocities ds' = (moleculeVelocities ds)(getNumberOfMolecules ds \<mapsto> v) \<and>
         moleculeRotationRates ds' = (moleculeRotationRates ds)(getNumberOfMolecules ds \<mapsto> r) \<and>
         moleculeForces ds' =
           (moleculeForces ds)(getNumberOfMolecules ds \<mapsto> Vector2 (Fin 0) (Fin 0)) \<and>
         nextMoleculeForces ds' =
           (nextMoleculeForces ds)(getNumberOfMolecules ds \<mapsto> Vector2 (Fin 0) (Fin 0)) \<and>
         moleculeRotationAngles ds' = moleculeRotationAngles ds \<and>
         moleculeTorques ds' = moleculeTorques ds \<and>
         nextMoleculeTorques ds' = nextMoleculeTorques ds \<and>
         moleculeMass ds' = moleculeMass ds \<and>
         moleculeRotationalInertia ds' = moleculeRotationalInertia ds"
    using h A(2,3)
    by (simp add: addMolecule_def A(1) Let_def getNumberOfMolecules_def)
qed

theorem addMolecule_contract_witness:
  "jseq (getNumberOfRemainingSlots 1 oneUnsafeMolecule) (Fin 0) \<and>
   addMolecule False 1 [origin] origin origin (Fin 0) oneUnsafeMolecule =
     Return False oneUnsafeMolecule \<and>
   \<not> jseq (getNumberOfRemainingSlots 500 sampleDataSet) (Fin 0) \<and>
   addMolecule False 500 [origin] origin origin (Fin 0) sampleDataSet =
     Return True oneUnsafeMolecule \<and>
   numberOfAtoms oneUnsafeMolecule = 1 \<and>
   numberOfSafeMolecules oneUnsafeMolecule = 0 \<and>
   atomPositions oneUnsafeMolecule (Fin 0) = Some origin \<and>
   moleculeCenterOfMassPositions oneUnsafeMolecule (Fin 0) = Some origin"
proof -
  have full: "jseq (getNumberOfRemainingSlots 1 oneUnsafeMolecule) (Fin 0)"
    by (simp add: getNumberOfRemainingSlots_def jsub_def jseq_def oneUnsafeMolecule_def
        sampleDataSet_def newMoleculeForceAndMotionDataSet_def)
  have room: "\<not> jseq (getNumberOfRemainingSlots 500 sampleDataSet) (Fin 0)"
    by (simp add: getNumberOfRemainingSlots_def jsub_def jseq_def sampleDataSet_def
        newMoleculeForceAndMotionDataSet_def)
  have fields: "numberOfAtoms oneUnsafeMolecule = 1"
    "numberOfSafeMolecules oneUnsafeMolecule = 0"
    "atomPositions oneUnsafeMolecule (Fin 0) = Some origin"
    "moleculeCenterOfMassPositions oneUnsafeMolecule (Fin 0) = Some origin"
    by (simp_all add: oneUnsafeMolecule_def sampleDataSet_def
        newMoleculeForceAndMotionDataSet_def)
  from full room fields show ?thesis
    using addMolecule_contract [where MAX_NUM_ATOMS = 1 and ds = oneUnsafeMolecule
        and a = False and aps = "[origin]" and com = origin and v = origin and r = "Fin 0"]
      sample_addMolecule
    by simp
qed

section \<open>The counters under the operations of the data set\<close>




lemma promoteMolecule_counts [simp]:
  "numberOfAtoms (promoteMolecule i ds) = numberOfAtoms ds"
  "atomsPerMolecule (promoteMolecule i ds) = atomsPerMolecule ds"
  "numberOfSafeMolecules (promoteMolecule i ds) = numberOfSafeMolecules ds + 1"
  by (simp_all add: promoteMolecule_def Let_def)


lemma shiftMoleculeData_counts [simp]:
  "numberOfAtoms (shiftMoleculeData i ds) = numberOfAtoms ds"
  "atomsPerMolecule (shiftMoleculeData i ds) = atomsPerMolecule ds"
  "numberOfSafeMolecules (shiftMoleculeData i ds) = numberOfSafeMolecules ds"
  by (simp_all add: shiftMoleculeData_def)














end
